theory Spec2Isabelle
  imports Main
begin

section \<open>Python values\<close>

text \<open>
  The values that \<^verbatim>\<open>json.load\<close> produces and that \<^verbatim>\<open>app.py\<close> builds:
  \<^verbatim>\<open>None\<close>, booleans, integers, strings, lists and dictionaries. A dictionary is
  an association list in insertion order, in which no key occurs twice; a
  lookup takes the first entry of a key. Floating-point numbers are left out.
  Strings are lists of 8-bit characters; the case conversions below are those
  of \<^verbatim>\<open>str.upper\<close> and \<^verbatim>\<open>str.lower\<close> on ASCII text.
\<close>

datatype pyval =
    PNone
  | PBool bool
  | PInt int
  | PStr string
  | PList "pyval list"
  | PDict "(pyval \<times> pyval) list"

datatype py_error =
    AttributeError
  | TypeError
  | ValueError
  | KeyError
  | NameError string
  | JSONDecodeError
  | BadZipFile
  | FileNotFoundError

type_synonym 'a result = "py_error + 'a"

text \<open>Only \<^verbatim>\<open>list\<close> and \<^verbatim>\<open>dict\<close> values are unhashable.\<close>

fun hashable :: "pyval \<Rightarrow> bool" where
  "hashable (PList _) = False"
| "hashable (PDict _) = False"
| "hashable _ = True"

text \<open>Python compares dictionary keys with \<^verbatim>\<open>==\<close>, under which \<^verbatim>\<open>True == 1\<close>
  and \<^verbatim>\<open>False == 0\<close>.\<close>

fun key_norm :: "pyval \<Rightarrow> pyval" where
  "key_norm (PBool b) = PInt (if b then 1 else 0)"
| "key_norm v = v"

definition key_eq :: "pyval \<Rightarrow> pyval \<Rightarrow> bool" where
  "key_eq a b = (key_norm a = key_norm b)"

fun dict_get :: "(pyval \<times> 'v) list \<Rightarrow> pyval \<Rightarrow> 'v option" where
  "dict_get [] k = None"
| "dict_get ((k', v) # d) k = (if key_eq k' k then Some v else dict_get d k)"

text \<open>\<^verbatim>\<open>d[k] = v\<close>: an existing key keeps its position (and its key object), a new
  key goes last.\<close>

fun dict_set :: "(pyval \<times> 'v) list \<Rightarrow> pyval \<Rightarrow> 'v \<Rightarrow> (pyval \<times> 'v) list" where
  "dict_set [] k v = [(k, v)]"
| "dict_set ((k', v') # d) k v =
     (if key_eq k' k then (k', v) # d else (k', v') # dict_set d k v)"

text \<open>Truth value of a Python object, as \<^verbatim>\<open>if attr_name:\<close> tests it.\<close>

fun truthy :: "pyval \<Rightarrow> bool" where
  "truthy PNone = False"
| "truthy (PBool b) = b"
| "truthy (PInt i) = (i \<noteq> 0)"
| "truthy (PStr s) = (s \<noteq> [])"
| "truthy (PList xs) = (xs \<noteq> [])"
| "truthy (PDict d) = (d \<noteq> [])"

definition upper_char :: "char \<Rightarrow> char" where
  "upper_char c =
     (let n = (of_char c :: nat) in if 97 \<le> n \<and> n \<le> 122 then char_of (n - 32) else c)"

definition lower_char :: "char \<Rightarrow> char" where
  "lower_char c =
     (let n = (of_char c :: nat) in if 65 \<le> n \<and> n \<le> 90 then char_of (n + 32) else c)"

definition str_upper :: "string \<Rightarrow> string" where
  "str_upper s = map upper_char s"

definition str_lower :: "string \<Rightarrow> string" where
  "str_lower s = map lower_char s"

text \<open>\<^verbatim>\<open>x.get(k, default)\<close> exists on dictionaries only; on any other value the
  attribute lookup raises.\<close>

fun py_get :: "pyval \<Rightarrow> string \<Rightarrow> pyval \<Rightarrow> pyval result" where
  "py_get (PDict d) k dflt = Inr (case dict_get d (PStr k) of Some v \<Rightarrow> v | None \<Rightarrow> dflt)"
| "py_get _ k dflt = Inl AttributeError"

text \<open>\<^verbatim>\<open>x.upper()\<close> and \<^verbatim>\<open>x.lower()\<close> exist on strings only.\<close>

fun py_upper :: "pyval \<Rightarrow> string result" where
  "py_upper (PStr s) = Inr (str_upper s)"
| "py_upper _ = Inl AttributeError"

fun py_lower :: "pyval \<Rightarrow> string result" where
  "py_lower (PStr s) = Inr (str_lower s)"
| "py_lower _ = Inl AttributeError"

section \<open>Schema extraction\<close>

type_synonym fieldmap = "(pyval \<times> string) list"

definition datatype_mapping :: "(string \<times> string) list" where
  "datatype_mapping =
     [(''STRING'', ''string''),
      (''INTEGER'', ''integer''),
      (''INT'', ''integer''),
      (''TIMESTAMP'', ''timestamp''),
      (''DATETIME'', ''timestamp'')]"

text \<open>\<^verbatim>\<open>datatype_mapping.get(k, default)\<close>.\<close>

definition mapping_get :: "string \<Rightarrow> string \<Rightarrow> string" where
  "mapping_get k dflt = (case map_of datatype_mapping k of Some v \<Rightarrow> v | None \<Rightarrow> dflt)"

text \<open>
  Lines 43 to 46. Python evaluates both arguments of the outer \<^verbatim>\<open>get\<close> before the
  call, so \<^verbatim>\<open>logicalDatatype\<close> is read and upper-cased even when \<^verbatim>\<open>datatype\<close>
  is mapped.
\<close>

definition attr_datatype :: "pyval \<Rightarrow> string result" where
  "attr_datatype attr =
     (case py_get attr ''datatype'' (PStr '''') of
        Inl e \<Rightarrow> Inl e
      | Inr dt \<Rightarrow>
     (case py_upper dt of
        Inl e \<Rightarrow> Inl e
      | Inr udt \<Rightarrow>
     (case py_get attr ''logicalDatatype'' (PStr '''') of
        Inl e \<Rightarrow> Inl e
      | Inr ldt \<Rightarrow>
     (case py_upper ldt of
        Inl e \<Rightarrow> Inl e
      | Inr uldt \<Rightarrow> Inr (mapping_get udt (mapping_get uldt ''string''))))))"

text \<open>The \<^verbatim>\<open>for attr in json_data['attributes']\<close> loop, lines 39 to 50, on the
  field map \<^verbatim>\<open>schema[table_name]\<close>.\<close>

fun add_attributes :: "pyval list \<Rightarrow> fieldmap \<Rightarrow> fieldmap result" where
  "add_attributes [] fm = Inr fm"
| "add_attributes (attr # rest) fm =
     (case py_get attr ''name'' (PStr '''') of
        Inl e \<Rightarrow> Inl e
      | Inr attr_name \<Rightarrow>
     (case attr_datatype attr of
        Inl e \<Rightarrow> Inl e
      | Inr datatype \<Rightarrow>
          if truthy attr_name
          then (if hashable attr_name
                then add_attributes rest (dict_set fm attr_name datatype)
                else Inl TypeError)
          else add_attributes rest fm))"

text \<open>Line 38: the list of attributes to loop over, empty when the key is
  absent or its value is not a list.\<close>

definition attributes_of :: "(pyval \<times> pyval) list \<Rightarrow> pyval list" where
  "attributes_of d =
     (case dict_get d (PStr ''attributes'') of
        Some (PList as) \<Rightarrow> as
      | _ \<Rightarrow> [])"

text \<open>Lines 52 to 57.\<close>

definition finish_fields :: "fieldmap \<Rightarrow> fieldmap" where
  "finish_fields fm =
     dict_set (if fm = [] then dict_set fm (PStr ''key'') ''string'' else fm)
       (PStr ''operation'') ''operation''"

text \<open>
  \<^verbatim>\<open>extract_schema_from_json\<close>. The result is the triple
  \<^verbatim>\<open>(table_name, entity_key, schema)\<close>; \<^verbatim>\<open>schema\<close> is the dictionary
  \<^verbatim>\<open>{table_name: fields}\<close>, whose creation on line 26 raises when
  \<^verbatim>\<open>table_name\<close> is unhashable.
\<close>

fun extract_schema_from_json ::
  "pyval \<Rightarrow> (pyval \<times> pyval \<times> (pyval \<times> fieldmap) list) result" where
  "extract_schema_from_json (PDict d) =
     (let table_name =
            (case dict_get d (PStr ''schemaKey'') of
               Some v \<Rightarrow> v
             | None \<Rightarrow>
                 (case dict_get d (PStr ''name'') of
                    Some v \<Rightarrow> v
                  | None \<Rightarrow> PStr ''unknown_table''));
          entity_key =
            (case dict_get d (PStr ''entityKey'') of
               Some v \<Rightarrow> v
             | None \<Rightarrow> PStr ''default_entity'')
      in if \<not> hashable table_name then Inl TypeError
         else (case add_attributes (attributes_of d) [] of
                 Inl e \<Rightarrow> Inl e
               | Inr fm \<Rightarrow> Inr (table_name, entity_key, [(table_name, finish_fields fm)])))"
| "extract_schema_from_json _ = Inl AttributeError"

section \<open>Well-formed input and the specification's reading of extraction\<close>

fun is_str :: "pyval \<Rightarrow> bool" where
  "is_str (PStr _) = True"
| "is_str _ = False"

text \<open>A field is either absent or holds a string.\<close>

definition opt_str :: "(pyval \<times> pyval) list \<Rightarrow> string \<Rightarrow> bool" where
  "opt_str d k = (case dict_get d (PStr k) of None \<Rightarrow> True | Some v \<Rightarrow> is_str v)"

definition str_field :: "(pyval \<times> pyval) list \<Rightarrow> string \<Rightarrow> string option" where
  "str_field d k = (case dict_get d (PStr k) of Some (PStr s) \<Rightarrow> Some s | _ \<Rightarrow> None)"

definition str_keys :: "(pyval \<times> 'v) list \<Rightarrow> bool" where
  "str_keys fm = list_all is_str (map fst fm)"

text \<open>An attribute descriptor of the data model:
  \<^verbatim>\<open>{name: string, datatype: string (optional), logicalDatatype: string (optional)}\<close>.\<close>

fun valid_attr :: "pyval \<Rightarrow> bool" where
  "valid_attr (PDict a) =
     (opt_str a ''name'' \<and> opt_str a ''datatype'' \<and> opt_str a ''logicalDatatype'')"
| "valid_attr _ = False"

text \<open>A metadata document of the data model: the optional fields are strings,
  and an attribute list holds descriptors. A value of \<^verbatim>\<open>attributes\<close> that is not
  a list is allowed: line 38 ignores it.\<close>

fun valid_doc :: "pyval \<Rightarrow> bool" where
  "valid_doc (PDict d) =
     (opt_str d ''schemaKey'' \<and> opt_str d ''name'' \<and> opt_str d ''entityKey'' \<and>
      list_all valid_attr (attributes_of d))"
| "valid_doc _ = False"

text \<open>The type resolution as the specification words it: a case-insensitive
  lookup of the tag in the fixed table, on \<^verbatim>\<open>datatype\<close> first, then on
  \<^verbatim>\<open>logicalDatatype\<close>, then the default.\<close>

definition spec_mapping :: "(string \<times> string) list" where
  "spec_mapping =
     [(''STRING'', ''string''), (''INTEGER'', ''integer''), (''INT'', ''integer''),
      (''TIMESTAMP'', ''timestamp''), (''DATETIME'', ''timestamp'')]"

definition ci_equal :: "string \<Rightarrow> string \<Rightarrow> bool" where
  "ci_equal a b = (str_lower a = str_lower b)"

definition spec_lookup :: "string \<Rightarrow> string option" where
  "spec_lookup tag = map_option snd (find (\<lambda>kv. ci_equal (fst kv) tag) spec_mapping)"

definition spec_resolve :: "string option \<Rightarrow> string option \<Rightarrow> string" where
  "spec_resolve dt ldt =
     (case Option.bind dt spec_lookup of
        Some t \<Rightarrow> t
      | None \<Rightarrow>
          (case Option.bind ldt spec_lookup of
             Some t \<Rightarrow> t
           | None \<Rightarrow> ''string''))"

text \<open>The names of the attributes that have a non-empty string name, in source
  order, and the order of first occurrences in a list.\<close>

fun usable_names :: "pyval list \<Rightarrow> string list" where
  "usable_names [] = []"
| "usable_names (PDict a # rest) =
     (case dict_get a (PStr ''name'') of
        Some (PStr s) \<Rightarrow> (if s = [] then usable_names rest else s # usable_names rest)
      | _ \<Rightarrow> usable_names rest)"
| "usable_names (_ # rest) = usable_names rest"

definition first_occurrences :: "'a list \<Rightarrow> 'a list" where
  "first_occurrences xs = rev (remdups (rev xs))"

definition add_key :: "'a list \<Rightarrow> 'a \<Rightarrow> 'a list" where
  "add_key ks k = (if k \<in> set ks then ks else ks @ [k])"

text \<open>The table name as the specification words it: \<^verbatim>\<open>schemaKey\<close> when present
  and non-empty, else \<^verbatim>\<open>name\<close>, else the literal.\<close>

definition name_or_unknown :: "(pyval \<times> pyval) list \<Rightarrow> pyval" where
  "name_or_unknown d =
     (case dict_get d (PStr ''name'') of Some v \<Rightarrow> v | None \<Rightarrow> PStr ''unknown_table'')"

definition spec_table_name :: "(pyval \<times> pyval) list \<Rightarrow> pyval" where
  "spec_table_name d =
     (case dict_get d (PStr ''schemaKey'') of
        Some v \<Rightarrow> (if v = PStr [] then name_or_unknown d else v)
      | None \<Rightarrow> name_or_unknown d)"

definition spec_entity_key :: "(pyval \<times> pyval) list \<Rightarrow> pyval" where
  "spec_entity_key d =
     (case dict_get d (PStr ''entityKey'') of Some v \<Rightarrow> v | None \<Rightarrow> PStr ''default_entity'')"

text \<open>The three ways of having no usable attribute.\<close>

fun empty_named :: "pyval \<Rightarrow> bool" where
  "empty_named (PDict a) =
     (case dict_get a (PStr ''name'') of None \<Rightarrow> True | Some v \<Rightarrow> v = PStr [])"
| "empty_named _ = False"

definition zero_usable :: "(pyval \<times> pyval) list \<Rightarrow> bool" where
  "zero_usable d =
     (case dict_get d (PStr ''attributes'') of
        None \<Rightarrow> True
      | Some (PList as) \<Rightarrow> list_all empty_named as
      | Some _ \<Rightarrow> True)"

text \<open>The documents on which extraction returns: the table name must be
  hashable, every entry of an attribute list must be a dictionary whose
  \<^verbatim>\<open>datatype\<close> and \<^verbatim>\<open>logicalDatatype\<close> are strings where present, and a
  truthy \<^verbatim>\<open>name\<close> must be hashable.\<close>

fun attr_ok :: "pyval \<Rightarrow> bool" where
  "attr_ok (PDict a) =
     (opt_str a ''datatype'' \<and> opt_str a ''logicalDatatype'' \<and>
      (case dict_get a (PStr ''name'') of
         None \<Rightarrow> True
       | Some v \<Rightarrow> truthy v \<longrightarrow> hashable v))"
| "attr_ok _ = False"

fun extractable :: "pyval \<Rightarrow> bool" where
  "extractable (PDict d) =
     (hashable (case dict_get d (PStr ''schemaKey'') of Some v \<Rightarrow> v | None \<Rightarrow> name_or_unknown d) \<and>
      list_all attr_ok (attributes_of d))"
| "extractable _ = False"

text \<open>No field of the map has the type of the synthetic field.\<close>

definition real_types :: "fieldmap \<Rightarrow> bool" where
  "real_types fm = list_all (\<lambda>kv. snd kv \<noteq> ''operation'') fm"


section \<open>The environment\<close>

text \<open>
  What a file holds is kept as what the two parsers of the program make of
  it: the result of \<^verbatim>\<open>json.load\<close>, and the members \<^verbatim>\<open>zipfile.ZipFile\<close> finds
  (\<open>None\<close> when the bytes are no archive).
\<close>

datatype file_content =
  FileContent (json_view: "py_error + pyval") (zip_view: "(string \<times> file_content) list option")

text \<open>
  The state the program runs in. The random generator and the clock are
  sequences of future readings with a position; \<^verbatim>\<open>repr_of\<close> is the text Python's
  \<^verbatim>\<open>str\<close> gives for a list or a dictionary. The file system is kept by area:
  the directories asked for, the files written under the output directory
  (path and dumped object, in the order of writing), the files under the
  upload directory in the order \<^verbatim>\<open>os.walk\<close> lists them, and the archives
  written (path, and the members as internal name and dumped object).
\<close>

record world =
  rand_draws :: "nat \<Rightarrow> nat"
  rand_pos :: nat
  clock_ms :: "nat \<Rightarrow> int"
  clock_pos :: nat
  repr_of :: "pyval \<Rightarrow> string"
  cwd :: string
  made_dirs :: "string list"
  written :: "(string \<times> pyval) list"
  tmp_files :: "(string \<times> file_content) list"
  archives :: "(string \<times> (string \<times> pyval) list) list"

text \<open>\<^verbatim>\<open>random.randint(a, b)\<close>: a value of \<open>a..b\<close>, from the next reading.\<close>

definition randint :: "int \<Rightarrow> int \<Rightarrow> world \<Rightarrow> int \<times> world" where
  "randint a b w =
     (a + int (rand_draws w (rand_pos w) mod nat (b - a + 1)),
      w\<lparr>rand_pos := Suc (rand_pos w)\<rparr>)"

text \<open>\<^verbatim>\<open>random.choices(population, k=n)\<close>: one reading for each character.\<close>

fun choices :: "string \<Rightarrow> nat \<Rightarrow> world \<Rightarrow> string \<times> world" where
  "choices population 0 w = ([], w)"
| "choices population (Suc k) w =
     (let c = population ! (rand_draws w (rand_pos w) mod length population);
          (cs, w') = choices population k (w\<lparr>rand_pos := Suc (rand_pos w)\<rparr>)
      in (c # cs, w'))"

text \<open>\<^verbatim>\<open>int(time.time() * 1000)\<close>.\<close>

definition now_ms :: "world \<Rightarrow> int \<times> world" where
  "now_ms w = (clock_ms w (clock_pos w), w\<lparr>clock_pos := Suc (clock_pos w)\<rparr>)"

section \<open>Text of numbers and values, paths\<close>

definition digit_char :: "nat \<Rightarrow> char" where
  "digit_char d = char_of (48 + d)"

function str_nat :: "nat \<Rightarrow> string" where
  "str_nat n = (if n < 10 then [digit_char n] else str_nat (n div 10) @ [digit_char (n mod 10)])"
  by pat_completeness auto
termination
  by (relation "measure id") auto

declare str_nat.simps [simp del]

text \<open>\<^verbatim>\<open>str(i)\<close> for an integer.\<close>

definition str_int :: "int \<Rightarrow> string" where
  "str_int i = (if i < 0 then CHR ''-'' # str_nat (nat (- i)) else str_nat (nat i))"

text \<open>The text an f-string puts for a value: \<^verbatim>\<open>str(v)\<close>.\<close>

fun py_format :: "world \<Rightarrow> pyval \<Rightarrow> string" where
  "py_format w PNone = ''None''"
| "py_format w (PBool b) = (if b then ''True'' else ''False'')"
| "py_format w (PInt i) = str_int i"
| "py_format w (PStr s) = s"
| "py_format w v = repr_of w v"

text \<open>\<^verbatim>\<open>os.path.join(a, b)\<close> of \<^verbatim>\<open>posixpath\<close>, for two components.\<close>

definition path_join :: "string \<Rightarrow> string \<Rightarrow> string" where
  "path_join a b =
     (if b \<noteq> [] \<and> hd b = CHR ''/'' then b
      else if a = [] \<or> last a = CHR ''/'' then a @ b
      else a @ ''/'' @ b)"

section \<open>Record synthesis and materialisation\<close>

definition letters :: string where
  "letters = ''abcdefghijklmnopqrstuvwxyzABCDEFGHIJKLMNOPQRSTUVWXYZ''"

definition operation_value :: pyval where
  "operation_value =
     PDict [(PStr ''enumName'', PStr ''Operation''),
            (PStr ''valueName'', PStr ''UPSERT''),
            (PStr ''valueOrdinal'', PInt 1)]"

text \<open>Lines 82 to 98: the value of one attribute of record \<open>i\<close> (0-based).
  \<^verbatim>\<open>attribute_name.lower()\<close> raises on a key that is not a string.\<close>

definition gen_value :: "pyval \<Rightarrow> string \<Rightarrow> nat \<Rightarrow> world \<Rightarrow> pyval result \<times> world" where
  "gen_value attribute_name attribute_type i w =
     (if attribute_type = ''string'' then
        (case py_lower attribute_name of
           Inl e \<Rightarrow> (Inl e, w)
         | Inr lname \<Rightarrow>
             if lname \<in> set [''sys_creation_date'', ''key'', ''createdby'']
             then (let (r, w') = randint 1 100 w in (Inr (PStr (''V'' @ str_int r)), w'))
             else (let (s, w') = choices letters 8 w in (Inr (PStr s), w')))
      else if attribute_type = ''integer'' then
        (case py_lower attribute_name of
           Inl e \<Rightarrow> (Inl e, w)
         | Inr lname \<Rightarrow>
             if lname = ''customer_id''
             then (Inr (PStr (str_int (int i + 1))), w)
             else (let (r, w') = randint 1 100 w in (Inr (PStr (str_int r)), w')))
      else if attribute_type = ''timestamp'' then
        (let (t, w') = now_ms w in (Inr (PInt t), w'))
      else if attribute_type = ''operation'' then (Inr operation_value, w)
      else (Inr PNone, w))"

text \<open>The loop of line 81 over \<^verbatim>\<open>attributes.items()\<close>, filling \<^verbatim>\<open>record\<close>.\<close>

fun gen_record ::
  "fieldmap \<Rightarrow> nat \<Rightarrow> (pyval \<times> pyval) list \<Rightarrow> world \<Rightarrow> (pyval \<times> pyval) list result \<times> world" where
  "gen_record [] i record w = (Inr record, w)"
| "gen_record ((attribute_name, attribute_type) # rest) i record w =
     (case gen_value attribute_name attribute_type i w of
        (Inl e, w') \<Rightarrow> (Inl e, w')
      | (Inr v, w') \<Rightarrow> gen_record rest i (dict_set record attribute_name v) w')"

text \<open>The transaction envelope of lines 73 to 78 with the record appended
  (line 100).\<close>

definition envelope :: "pyval \<Rightarrow> int \<Rightarrow> (pyval \<times> pyval) list \<Rightarrow> pyval" where
  "envelope table_name r record =
     PDict [(PStr ''startTransaction'', PBool True),
            (PStr ''transactionId'', PStr (''transaction'' @ str_int r)),
            (PStr ''endTransaction'', PBool True),
            (PStr ''repeatedMessages'', PDict [(table_name, PList [PDict record])])]"

text \<open>Line 103.\<close>

definition file_name :: "world \<Rightarrow> pyval \<Rightarrow> pyval \<Rightarrow> nat \<Rightarrow> string" where
  "file_name w schema_key entity_key i =
     py_format w schema_key @ ''_'' @ py_format w entity_key @ ''_file'' @
     str_int (int i + 1) @ ''.json''"

text \<open>One turn of the loop of line 72: the envelope of record \<open>i\<close> is built,
  written to its file, and the path is returned.\<close>

definition gen_file ::
  "pyval \<Rightarrow> string \<Rightarrow> fieldmap \<Rightarrow> pyval \<Rightarrow> pyval \<Rightarrow> nat \<Rightarrow> world \<Rightarrow> string result \<times> world" where
  "gen_file table_name table_dir attributes schema_key entity_key i w =
     (let (r, w1) = randint 1 100 w in
      case gen_record attributes i [] w1 of
        (Inl e, w2) \<Rightarrow> (Inl e, w2)
      | (Inr record, w2) \<Rightarrow>
          (let file_path = path_join table_dir (file_name w2 schema_key entity_key i)
           in (Inr file_path,
               w2\<lparr>written := written w2 @ [(file_path, envelope table_name r record)]\<rparr>)))"

fun gen_files ::
  "pyval \<Rightarrow> string \<Rightarrow> fieldmap \<Rightarrow> pyval \<Rightarrow> pyval \<Rightarrow> nat list \<Rightarrow> world \<Rightarrow>
   string list result \<times> world" where
  "gen_files table_name table_dir attributes schema_key entity_key [] w = (Inr [], w)"
| "gen_files table_name table_dir attributes schema_key entity_key (i # rest) w =
     (case gen_file table_name table_dir attributes schema_key entity_key i w of
        (Inl e, w1) \<Rightarrow> (Inl e, w1)
      | (Inr p, w1) \<Rightarrow>
          (case gen_files table_name table_dir attributes schema_key entity_key rest w1 of
             (Inl e, w2) \<Rightarrow> (Inl e, w2)
           | (Inr ps, w2) \<Rightarrow> (Inr (p # ps), w2)))"

text \<open>One turn of the loop of line 68, for one table. \<^verbatim>\<open>os.path.join\<close> raises
  on a table name that is not a string. \<^verbatim>\<open>range(count)\<close> is empty for a
  negative count.\<close>

fun gen_table ::
  "string \<Rightarrow> pyval \<Rightarrow> pyval \<Rightarrow> int \<Rightarrow> pyval \<times> fieldmap \<Rightarrow> world \<Rightarrow> string list result \<times> world" where
  "gen_table base_dir schema_key entity_key count (PStr tn, attributes) w =
     (let table_dir = path_join base_dir tn
      in gen_files (PStr tn) table_dir attributes schema_key entity_key [0..<nat count]
           (w\<lparr>made_dirs := made_dirs w @ [table_dir]\<rparr>))"
| "gen_table base_dir schema_key entity_key count (_, attributes) w = (Inl TypeError, w)"

fun gen_tables ::
  "string \<Rightarrow> pyval \<Rightarrow> pyval \<Rightarrow> int \<Rightarrow> (pyval \<times> fieldmap) list \<Rightarrow> world \<Rightarrow>
   string list result \<times> world" where
  "gen_tables base_dir schema_key entity_key count [] w = (Inr [], w)"
| "gen_tables base_dir schema_key entity_key count (table # rest) w =
     (case gen_table base_dir schema_key entity_key count table w of
        (Inl e, w1) \<Rightarrow> (Inl e, w1)
      | (Inr ps, w1) \<Rightarrow>
          (case gen_tables base_dir schema_key entity_key count rest w1 of
             (Inl e, w2) \<Rightarrow> (Inl e, w2)
           | (Inr qs, w2) \<Rightarrow> (Inr (ps @ qs), w2)))"

text \<open>\<^verbatim>\<open>generate_random_transaction\<close>: the list of the paths written, in the
  order of the tables and, within a table, of the records.\<close>

definition generate_random_transaction ::
  "(pyval \<times> fieldmap) list \<Rightarrow> int \<Rightarrow> string \<Rightarrow> pyval \<Rightarrow> pyval \<Rightarrow> world \<Rightarrow>
   string list result \<times> world" where
  "generate_random_transaction schema count base_dir schema_key entity_key w =
     gen_tables base_dir schema_key entity_key count schema
       (w\<lparr>made_dirs := made_dirs w @ [base_dir]\<rparr>)"

section \<open>Reading the generated files back\<close>









text \<open>A world to run examples in.\<close>

definition example_world :: world where
  "example_world =
     \<lparr>rand_draws = (\<lambda>n. 7 * n + 3), rand_pos = 0,
      clock_ms = (\<lambda>n. 1700000000000 + int n), clock_pos = 0,
      repr_of = (\<lambda>v. ''[]''), cwd = ''/var/task'',
      made_dirs = [], written = [], tmp_files = [], archives = []\<rparr>"




section \<open>Paths of \<^verbatim>\<open>posixpath\<close>\<close>

text \<open>\<^verbatim>\<open>s.split('/')\<close> and \<^verbatim>\<open>'/'.join(comps)\<close>.\<close>

fun split_slash :: "string \<Rightarrow> string list" where
  "split_slash [] = [[]]"
| "split_slash (c # cs) =
     (if c = CHR ''/'' then [] # split_slash cs
      else (case split_slash cs of
              [] \<Rightarrow> [[c]]
            | x # xs \<Rightarrow> (c # x) # xs))"

fun join_slash :: "string list \<Rightarrow> string" where
  "join_slash [] = []"
| "join_slash [x] = x"
| "join_slash (x # y # ys) = x @ ''/'' @ join_slash (y # ys)"

text \<open>The loop of \<^verbatim>\<open>normpath\<close> over the components: empty ones and \<^verbatim>\<open>.\<close> are
  dropped, \<^verbatim>\<open>..\<close> removes the component before it where there is one to
  remove, and is dropped at the root.\<close>

fun norm_comps :: "bool \<Rightarrow> string list \<Rightarrow> string list \<Rightarrow> string list" where
  "norm_comps rooted [] new_comps = new_comps"
| "norm_comps rooted (part # parts) new_comps =
     (if part = [] \<or> part = ''.'' then norm_comps rooted parts new_comps
      else if part \<noteq> ''..'' \<or> (\<not> rooted \<and> new_comps = []) \<or>
              (new_comps \<noteq> [] \<and> last new_comps = ''..'')
           then norm_comps rooted parts (new_comps @ [part])
      else if new_comps \<noteq> [] then norm_comps rooted parts (butlast new_comps)
      else norm_comps rooted parts new_comps)"

definition normpath :: "string \<Rightarrow> string" where
  "normpath path =
     (if path = [] then ''.''
      else
        (let initial_slashes =
               (if hd path = CHR ''/''
                then (if take 2 path = ''//'' \<and> take 3 path \<noteq> ''///'' then 2 else 1)
                else (0::nat));
             comps = norm_comps (initial_slashes \<noteq> 0) (split_slash path) [];
             p = replicate initial_slashes CHR ''/'' @ join_slash comps
         in if p = [] then ''.'' else p))"

text \<open>\<^verbatim>\<open>abspath\<close> joins a relative path to the working directory.\<close>

definition abspath :: "world \<Rightarrow> string \<Rightarrow> string" where
  "abspath w path =
     normpath (if path \<noteq> [] \<and> hd path = CHR ''/'' then path else path_join (cwd w) path)"

fun common_prefix :: "'a list \<Rightarrow> 'a list \<Rightarrow> 'a list" where
  "common_prefix (x # xs) (y # ys) = (if x = y then x # common_prefix xs ys else [])"
| "common_prefix _ _ = []"

text \<open>\<^verbatim>\<open>os.path.relpath(path, start)\<close>.\<close>

definition relpath :: "world \<Rightarrow> string \<Rightarrow> string \<Rightarrow> string result" where
  "relpath w path start =
     (if path = [] then Inl ValueError
      else
        (let start_list = filter (\<lambda>x. x \<noteq> []) (split_slash (abspath w start));
             path_list = filter (\<lambda>x. x \<noteq> []) (split_slash (abspath w path));
             i = length (common_prefix start_list path_list);
             rel_list = replicate (length start_list - i) ''..'' @ drop i path_list
         in Inr (if rel_list = [] then ''.''
                 else foldl path_join (hd rel_list) (tl rel_list))))"

text \<open>\<^verbatim>\<open>os.path.basename\<close>, and \<^verbatim>\<open>s.endswith(suffix)\<close>.\<close>

definition basename :: "string \<Rightarrow> string" where
  "basename p = rev (takeWhile (\<lambda>c. c \<noteq> CHR ''/'') (rev p))"

definition ends_with :: "string \<Rightarrow> string \<Rightarrow> bool" where
  "ends_with s suffix =
     (length suffix \<le> length s \<and> drop (length s - length suffix) s = suffix)"

section \<open>The archive\<close>

text \<open>The name \<^verbatim>\<open>ZipFile.write\<close> stores a member under: the normalised
  \<^verbatim>\<open>arcname\<close> without leading separators.\<close>

definition zip_arcname :: "string \<Rightarrow> string" where
  "zip_arcname arcname = dropWhile (\<lambda>c. c = CHR ''/'') (normpath arcname)"

text \<open>What the file at a path holds: the object of the last write to it.\<close>

definition read_file :: "world \<Rightarrow> string \<Rightarrow> pyval option" where
  "read_file w p = map_of (rev (written w)) p"

text \<open>The loop of lines 134 to 137. It stops at the first file that cannot be
  added; the members added before stay in the archive.\<close>

fun zip_members ::
  "world \<Rightarrow> string list \<Rightarrow> (string \<times> pyval) list \<Rightarrow> py_error option \<times> (string \<times> pyval) list" where
  "zip_members w [] members = (None, members)"
| "zip_members w (file # files) members =
     (case relpath w file ''data'' of
        Inl e \<Rightarrow> (Some e, members)
      | Inr arcname \<Rightarrow>
          (case read_file w file of
             None \<Rightarrow> (Some FileNotFoundError, members)
           | Some data \<Rightarrow> zip_members w files (members @ [(zip_arcname arcname, data)])))"

definition create_zip_archive :: "string list \<Rightarrow> string \<Rightarrow> world \<Rightarrow> string result \<times> world" where
  "create_zip_archive files archive_name w =
     (let downloads_dir = ''downloads'';
          w1 = w\<lparr>made_dirs := made_dirs w @ [downloads_dir]\<rparr>;
          zip_path = path_join downloads_dir archive_name;
          (err, members) = zip_members w1 files [];
          w2 = w1\<lparr>archives := archives w1 @ [(zip_path, members)]\<rparr>
      in (case err of
            None \<Rightarrow> (Inr zip_path, w2)
          | Some e \<Rightarrow> (Inl e, w2)))"

section \<open>The request handler\<close>

record upload =
  filename :: string
  content :: file_content

text \<open>A request: the uploaded file where there is one, and what
  \<^verbatim>\<open>int(request.form['count'])\<close> gives.\<close>

record request =
  schema_file :: "upload option"
  form_count :: "py_error + int"

text \<open>The JSON bodies the handler answers with: a fixed error message, the
  text of a caught exception, or the success message with the number of files
  and the download link.\<close>

datatype response =
    JsonError string
  | JsonException py_error
  | JsonSuccess nat string

definition temp_dir :: string where
  "temp_dir = ''tmp_schema_files''"

definition output_dir :: string where
  "output_dir = ''/tmp/data''"

text \<open>The names bound in the module: its imports (lines 1 to 7), its own
  definitions, and the built-in names it uses.\<close>

definition module_names :: "string list" where
  "module_names =
     [''os'', ''json'', ''random'', ''time'', ''zipfile'', ''traceback'',
      ''Flask'', ''request'', ''render_template'', ''jsonify'', ''send_file'',
      ''send_from_directory'', ''app'', ''extract_schema_from_json'',
      ''generate_random_transaction'', ''create_zip_archive'', ''generate'',
      ''download_file'', ''index'',
      ''isinstance'', ''list'', ''str'', ''int'', ''range'', ''open'', ''print'', ''len'',
      ''Exception'', ''FileNotFoundError'']"

definition resolve_name :: "string \<Rightarrow> unit result" where
  "resolve_name n = (if n \<in> set module_names then Inr () else Inl (NameError n))"

text \<open>Writing a file of the upload directory: a file of this path is
  replaced, a new one is listed last.\<close>

fun store_file ::
  "(string \<times> file_content) list \<Rightarrow> string \<Rightarrow> file_content \<Rightarrow> (string \<times> file_content) list" where
  "store_file [] p c = [(p, c)]"
| "store_file ((p', c') # fs) p c =
     (if p' = p then (p', c) # fs else (p', c') # store_file fs p c)"

text \<open>\<^verbatim>\<open>zip_ref.extractall(temp_dir)\<close>.\<close>

fun extractall ::
  "(string \<times> file_content) list \<Rightarrow> string \<Rightarrow> (string \<times> file_content) list \<Rightarrow>
   (string \<times> file_content) list" where
  "extractall [] dir fs = fs"
| "extractall ((name, c) # members) dir fs =
     extractall members dir (store_file fs (path_join dir name) c)"

text \<open>Lines 176 to 188: one metadata document is loaded, its schema extracted
  and its records generated.\<close>

definition process_document :: "file_content \<Rightarrow> int \<Rightarrow> world \<Rightarrow> string list result \<times> world" where
  "process_document c count w =
     (case json_view c of
        Inl e \<Rightarrow> (Inl e, w)
      | Inr schema_json \<Rightarrow>
     (case extract_schema_from_json schema_json of
        Inl e \<Rightarrow> (Inl e, w)
      | Inr (table_name, entity_key, schema) \<Rightarrow>
     (case py_get schema_json ''schemaKey'' (PStr ''unknown_schema'') of
        Inl e \<Rightarrow> (Inl e, w)
      | Inr schema_key \<Rightarrow>
          generate_random_transaction schema count output_dir schema_key entity_key w)))"

text \<open>Lines 170 to 192: the walk over the upload directory. The handler of
  line 190 catches what a document raises, and the walk goes on.\<close>

fun process_walk ::
  "(string \<times> file_content) list \<Rightarrow> int \<Rightarrow> string list \<Rightarrow> world \<Rightarrow> string list \<times> world" where
  "process_walk [] count all_generated_files w = (all_generated_files, w)"
| "process_walk ((path, c) # rest) count all_generated_files w =
     (if ends_with (str_lower (basename path)) ''.json''
      then (case process_document c count w of
              (Inl e, w1) \<Rightarrow> process_walk rest count all_generated_files w1
            | (Inr generated_files, w1) \<Rightarrow>
                process_walk rest count (all_generated_files @ generated_files) w1)
      else process_walk rest count all_generated_files w)"

text \<open>Lines 161 to 209: the upload is saved, its documents are processed and
  the archive is built.\<close>

definition process_upload ::
  "upload \<Rightarrow> int \<Rightarrow> world \<Rightarrow> (string list \<times> string) result \<times> world" where
  "process_upload up count w =
     (let schema_file_path = path_join temp_dir (filename up);
          w1 = w\<lparr>tmp_files := store_file (tmp_files w) schema_file_path (content up)\<rparr>
      in (case (if ends_with (str_lower (filename up)) ''.zip''
                then (case zip_view (content up) of
                        None \<Rightarrow> (Inl BadZipFile, w1)
                      | Some members \<Rightarrow>
                          (let w2 = w1\<lparr>tmp_files := extractall members temp_dir (tmp_files w1)\<rparr>
                           in (case process_walk (tmp_files w2) count [] w2 of
                                 (fs, w3) \<Rightarrow> (Inr fs, w3))))
                else process_document (content up) count w1) of
            (Inl e, w4) \<Rightarrow> (Inl e, w4)
          | (Inr all_generated_files, w4) \<Rightarrow>
              (case create_zip_archive all_generated_files ''generated_data.zip'' w4 of
                 (Inl e, w5) \<Rightarrow> (Inl e, w5)
               | (Inr zip_path, w5) \<Rightarrow> (Inr (all_generated_files, zip_path), w5))))"

text \<open>Line 211, \<^verbatim>\<open>shutil.rmtree(temp_dir)\<close>: the name is looked up first.\<close>

definition rmtree_temp :: "world \<Rightarrow> unit result \<times> world" where
  "rmtree_temp w =
     (case resolve_name ''shutil'' of
        Inl e \<Rightarrow> (Inl e, w)
      | Inr u \<Rightarrow> (Inr (), w\<lparr>tmp_files := []\<rparr>))"

text \<open>The body of the \<^verbatim>\<open>try\<close> statement, lines 160 to 217.\<close>

definition try_body :: "upload \<Rightarrow> int \<Rightarrow> world \<Rightarrow> response result \<times> world" where
  "try_body up count w =
     (case process_upload up count w of
        (Inl e, w1) \<Rightarrow> (Inl e, w1)
      | (Inr (all_generated_files, zip_path), w1) \<Rightarrow>
          (case rmtree_temp w1 of
             (Inl e, w2) \<Rightarrow> (Inl e, w2)
           | (Inr u, w2) \<Rightarrow>
               (Inr (JsonSuccess (length all_generated_files)
                       (''/download/'' @ basename zip_path)), w2)))"

text \<open>\<^verbatim>\<open>generate\<close>. An exception of line 151 is raised outside of the
  \<^verbatim>\<open>try\<close> statement and leaves the handler; the two \<^verbatim>\<open>except\<close> clauses turn
  every other one into a response.\<close>

definition generate :: "request \<Rightarrow> world \<Rightarrow> response result \<times> world" where
  "generate req w =
     (case schema_file req of
        None \<Rightarrow> (Inr (JsonError ''No file uploaded''), w)
      | Some up \<Rightarrow>
          if filename up = [] then (Inr (JsonError ''No selected file''), w)
          else (case form_count req of
                  Inl e \<Rightarrow> (Inl e, w)
                | Inr count \<Rightarrow>
                    (case try_body up count
                            (w\<lparr>made_dirs := made_dirs w @ [temp_dir, output_dir]\<rparr>) of
                       (Inl JSONDecodeError, w') \<Rightarrow>
                         (Inr (JsonError ''Invalid JSON format in schema file.''), w')
                     | (Inl e, w') \<Rightarrow> (Inr (JsonException e), w')
                     | (Inr resp, w') \<Rightarrow> (Inr resp, w'))))"

section \<open>What a document yields, and what an archive member comes from\<close>

text \<open>The second world is the first one after some more files were written
  under the output directory: nothing else of what the later steps read has
  changed.\<close>

definition extends :: "world \<Rightarrow> world \<Rightarrow> bool" where
  "extends w w' =
     (repr_of w' = repr_of w \<and> cwd w' = cwd w \<and> archives w' = archives w \<and>
      tmp_files w' = tmp_files w \<and> take (length (written w)) (written w') = written w)"





section \<open>Example requests\<close>

definition example_doc :: pyval where
  "example_doc =
     PDict [(PStr ''schemaKey'', PStr ''Cust''), (PStr ''entityKey'', PStr ''E1''),
            (PStr ''attributes'',
             PList [PDict [(PStr ''name'', PStr ''customer_id''),
                           (PStr ''datatype'', PStr ''INTEGER'')]])]"


text \<open>A single document, one record asked for.\<close>

definition example_upload :: upload where
  "example_upload = \<lparr>filename = ''cust.json'', content = FileContent (Inr example_doc) None\<rparr>"

definition example_request :: request where
  "example_request = \<lparr>schema_file = Some example_upload, form_count = Inr 1\<rparr>"




section \<open>Properties of schema extraction\<close>

lemmas eval_simps =
  str_upper_def str_lower_def upper_char_def lower_char_def char_of_eq_iff
  key_eq_def opt_str_def str_field_def attributes_of_def finish_fields_def
  attr_datatype_def mapping_get_def datatype_mapping_def
  spec_resolve_def spec_lookup_def spec_mapping_def ci_equal_def
  name_or_unknown_def spec_table_name_def spec_entity_key_def zero_usable_def
  first_occurrences_def Let_def

lemma lower_upper_char: "lower_char (upper_char c) = lower_char c"
  unfolding lower_char_def upper_char_def Let_def by auto

lemma upper_lower_char: "upper_char (lower_char c) = upper_char c"
  unfolding lower_char_def upper_char_def Let_def by auto

lemma str_lower_upper: "str_lower (str_upper s) = str_lower s"
  by (simp add: str_lower_def str_upper_def lower_upper_char)

lemma str_upper_lower: "str_upper (str_lower s) = str_upper s"
  by (simp add: str_lower_def str_upper_def upper_lower_char)

lemma upper_eq_iff_ci:
  assumes "str_upper k = k"
  shows "str_upper s = k \<longleftrightarrow> ci_equal k s"
proof
  assume "str_upper s = k"
  then have "str_lower k = str_lower (str_upper s)" by simp
  then show "ci_equal k s" by (simp add: ci_equal_def str_lower_upper)
next
  assume "ci_equal k s"
  then have "str_upper (str_lower s) = str_upper (str_lower k)" by (simp add: ci_equal_def)
  then show "str_upper s = k" using assms by (simp add: str_upper_lower)
qed

lemma upper_keys:
  "str_upper ''STRING'' = ''STRING''" "str_upper ''INTEGER'' = ''INTEGER''"
  "str_upper ''INT'' = ''INT''" "str_upper ''TIMESTAMP'' = ''TIMESTAMP''"
  "str_upper ''DATETIME'' = ''DATETIME''"
  by (simp_all add: str_upper_def upper_char_def char_of_eq_iff)

lemma map_of_mapping_upper: "map_of datatype_mapping (str_upper s) = spec_lookup s"
  unfolding datatype_mapping_def spec_lookup_def spec_mapping_def
  using upper_keys[THEN upper_eq_iff_ci, of s]
  by auto

lemma mapping_get_upper:
  "mapping_get (str_upper s) dflt = (case spec_lookup s of Some t \<Rightarrow> t | None \<Rightarrow> dflt)"
  by (simp add: mapping_get_def map_of_mapping_upper)

lemma spec_lookup_empty: "spec_lookup [] = None"
  by (simp add: spec_lookup_def spec_mapping_def ci_equal_def str_lower_def)

lemma attr_datatype_valid:
  assumes "opt_str a ''datatype''" "opt_str a ''logicalDatatype''"
  shows "attr_datatype (PDict a) =
           Inr (spec_resolve (str_field a ''datatype'') (str_field a ''logicalDatatype''))"
proof -
  obtain dt where dt: "(case dict_get a (PStr ''datatype'') of Some v \<Rightarrow> v | None \<Rightarrow> PStr '''') = PStr dt"
    "Option.bind (str_field a ''datatype'') spec_lookup = spec_lookup dt"
    using assms(1) by (cases "dict_get a (PStr ''datatype'')")
      (auto simp: opt_str_def str_field_def spec_lookup_empty elim: is_str.elims)
  obtain ldt where ldt: "(case dict_get a (PStr ''logicalDatatype'') of Some v \<Rightarrow> v | None \<Rightarrow> PStr '''') = PStr ldt"
    "Option.bind (str_field a ''logicalDatatype'') spec_lookup = spec_lookup ldt"
    using assms(2) by (cases "dict_get a (PStr ''logicalDatatype'')")
      (auto simp: opt_str_def str_field_def spec_lookup_empty elim: is_str.elims)
  show ?thesis
    unfolding attr_datatype_def spec_resolve_def
    by (simp add: dt ldt mapping_get_upper split: option.splits)
qed



lemma key_eq_PStr [simp]: "key_eq (PStr a) (PStr b) \<longleftrightarrow> a = b"
  by (simp add: key_eq_def)

lemma key_eq_refl [simp]: "key_eq k k"
  by (simp add: key_eq_def)

lemma keys_dict_set:
  "str_keys fm \<Longrightarrow> map fst (dict_set fm (PStr n) v) = add_key (map fst fm) (PStr n)"
proof (induction fm)
  case Nil
  then show ?case by (simp add: add_key_def)
next
  case (Cons kv fm)
  obtain k v' where kv: "kv = (k, v')" by (cases kv)
  from Cons.prems kv obtain s where k: "k = PStr s"
    by (cases k) (auto simp: str_keys_def)
  from Cons.prems have "str_keys fm" by (simp add: str_keys_def)
  with Cons.IH have "map fst (dict_set fm (PStr n) v) = add_key (map fst fm) (PStr n)" .
  then show ?case by (auto simp: kv k add_key_def)
qed

lemma str_keys_dict_set: "str_keys fm \<Longrightarrow> str_keys (dict_set fm (PStr n) v)"
  by (simp add: str_keys_def keys_dict_set[unfolded str_keys_def] add_key_def)

lemma foldl_add_key_set: "set (foldl add_key ks xs) = set ks \<union> set xs"
  by (induction xs arbitrary: ks) (auto simp: add_key_def)

lemma foldl_add_key_first: "foldl add_key [] xs = first_occurrences xs"
proof (induction xs rule: rev_induct)
  case Nil
  then show ?case by (simp add: first_occurrences_def)
next
  case (snoc x xs)
  have "set (first_occurrences xs) = set xs" by (simp add: first_occurrences_def)
  with snoc show ?case by (simp add: add_key_def first_occurrences_def)
qed

lemma add_attributes_valid:
  "list_all valid_attr as \<Longrightarrow> str_keys fm \<Longrightarrow>
   \<exists>fm'. add_attributes as fm = Inr fm' \<and> str_keys fm' \<and>
         map fst fm' = foldl add_key (map fst fm) (map PStr (usable_names as))"
proof (induction as arbitrary: fm)
  case Nil
  then show ?case by simp
next
  case (Cons attr as)
  from Cons.prems(1) obtain a where a: "attr = PDict a" by (cases attr) auto
  from Cons.prems(1) a have va: "opt_str a ''name''" "opt_str a ''datatype''" "opt_str a ''logicalDatatype''"
    and rest: "list_all valid_attr as" by auto
  obtain t where t: "attr_datatype (PDict a) = Inr t"
    using attr_datatype_valid[OF va(2,3)] by blast
  show ?case
  proof (cases "dict_get a (PStr ''name'')")
    case None
    with Cons.IH[OF rest Cons.prems(2)] show ?thesis by (simp add: a t)
  next
    case (Some v)
    with va(1) obtain s where s: "v = PStr s" by (cases v) (auto simp: opt_str_def)
    show ?thesis
    proof (cases "s = []")
      case True
      with Cons.IH[OF rest Cons.prems(2)] show ?thesis by (simp add: a t Some s)
    next
      case False
      from Cons.IH[OF rest str_keys_dict_set[OF Cons.prems(2)], of s t]
      show ?thesis by (simp add: a t Some s False keys_dict_set[OF Cons.prems(2)])
    qed
  qed
qed

lemma mapping_get_range:
  "dflt \<in> {''string'', ''integer'', ''timestamp''} \<Longrightarrow>
   mapping_get k dflt \<in> {''string'', ''integer'', ''timestamp''}"
  by (auto simp: mapping_get_def datatype_mapping_def split: option.splits if_splits)

lemma attr_datatype_range:
  "attr_datatype a = Inr t \<Longrightarrow> t \<in> {''string'', ''integer'', ''timestamp''}"
  unfolding attr_datatype_def
  using mapping_get_range[OF mapping_get_range[of "''string''"]]
  by (auto split: sum.splits)

lemma real_types_dict_set:
  "real_types fm \<Longrightarrow> t \<noteq> ''operation'' \<Longrightarrow> real_types (dict_set fm k t)"
  by (induction fm) (auto simp: real_types_def)

lemma add_attributes_types:
  "add_attributes as fm = Inr fm' \<Longrightarrow> real_types fm \<Longrightarrow> real_types fm'"
proof (induction as arbitrary: fm)
  case Nil
  then show ?case by simp
next
  case (Cons attr as)
  show ?case
  proof (cases "attr_datatype attr")
    case (Inl e)
    with Cons.prems(1) show ?thesis by (auto split: sum.splits)
  next
    case (Inr t)
    from attr_datatype_range[OF Inr] have "t \<noteq> ''operation''" by auto
    with Cons.prems(2) have "\<And>k. real_types (dict_set fm k t)" by (rule real_types_dict_set)
    with Cons.prems Cons.IH Inr show ?thesis
      by (auto split: sum.splits if_splits)
  qed
qed

lemma extract_valid_fields:
  assumes "valid_doc (PDict d)"
  shows "\<exists>fm. add_attributes (attributes_of d) [] = Inr fm \<and> str_keys fm \<and> real_types fm \<and>
           map fst fm = first_occurrences (map PStr (usable_names (attributes_of d)))"
proof -
  from assms have "list_all valid_attr (attributes_of d)" by simp
  from add_attributes_valid[OF this, of "[]"] obtain fm where
    fm: "add_attributes (attributes_of d) [] = Inr fm" "str_keys fm"
        "map fst fm = foldl add_key [] (map PStr (usable_names (attributes_of d)))"
    by (auto simp: str_keys_def)
  from add_attributes_types[OF fm(1)] have "real_types fm" by (simp add: real_types_def)
  with fm show ?thesis by (simp add: foldl_add_key_first)
qed

lemma valid_doc_hashable:
  assumes "valid_doc (PDict d)"
  shows "hashable (case dict_get d (PStr ''schemaKey'') of Some v \<Rightarrow> v | None \<Rightarrow> name_or_unknown d)"
  using assms
  by (auto simp: opt_str_def name_or_unknown_def split: option.splits elim!: is_str.elims)

lemma extract_unfold:
  "hashable (case dict_get d (PStr ''schemaKey'') of Some v \<Rightarrow> v | None \<Rightarrow> name_or_unknown d) \<Longrightarrow>
   add_attributes (attributes_of d) [] = Inr fm \<Longrightarrow>
   extract_schema_from_json (PDict d) =
     Inr (case dict_get d (PStr ''schemaKey'') of Some v \<Rightarrow> v | None \<Rightarrow> name_or_unknown d,
          spec_entity_key d,
          [(case dict_get d (PStr ''schemaKey'') of Some v \<Rightarrow> v | None \<Rightarrow> name_or_unknown d,
            finish_fields fm)])"
  by (auto simp: name_or_unknown_def spec_entity_key_def Let_def split: option.splits)

lemma key_norm_eq_PStr [simp]: "key_norm a = PStr s \<longleftrightarrow> a = PStr s"
  by (cases a) auto

lemma first_occurrences_props:
  "set (first_occurrences xs) = set xs" "distinct (first_occurrences xs)"
  "length (first_occurrences xs) = card (set xs)"
  by (simp_all add: first_occurrences_def length_remdups_card_conv)

text \<open>
  Claim C2, as the code has it. For a well-formed document with at least one
  attribute of non-empty name, none of them named \<^verbatim>\<open>operation\<close>, extraction
  returns; the keys of the field map are the distinct non-empty attribute
  names in the order of their first occurrence, followed by \<^verbatim>\<open>operation\<close>;
  the map has (number of distinct non-empty names) + 1 entries; its keys are
  distinct; exactly one field has the type \<^verbatim>\<open>operation\<close>, and it is the last.
\<close>
theorem field_map_shape:
  assumes "valid_doc (PDict d)"
    and "usable_names (attributes_of d) \<noteq> []"
    and "''operation'' \<notin> set (usable_names (attributes_of d))"
  shows "\<exists>t e fm. extract_schema_from_json (PDict d) = Inr (t, e, [(t, fm)]) \<and>
           map fst fm =
             first_occurrences (map PStr (usable_names (attributes_of d))) @ [PStr ''operation''] \<and>
           length fm = card (set (usable_names (attributes_of d))) + 1 \<and>
           distinct (map fst fm) \<and>
           filter (\<lambda>kv. snd kv = ''operation'') fm = [(PStr ''operation'', ''operation'')] \<and>
           last fm = (PStr ''operation'', ''operation'')"
proof -
  let ?names = "map PStr (usable_names (attributes_of d))"
  from extract_valid_fields[OF assms(1)] obtain fm0 where
    fm0: "add_attributes (attributes_of d) [] = Inr fm0" "str_keys fm0" "real_types fm0"
         "map fst fm0 = first_occurrences ?names"
    by blast
  from assms(2) have "set ?names \<noteq> {}" by simp
  then have "first_occurrences ?names \<noteq> []"
    using first_occurrences_props(1)[of ?names] by auto
  with fm0(4) have ne: "fm0 \<noteq> []" by auto
  from assms(3) have notin: "PStr ''operation'' \<notin> set (map fst fm0)"
    by (auto simp: fm0(4) first_occurrences_props(1))
  define fm where "fm = finish_fields fm0"
  have fm_eq: "fm = dict_set fm0 (PStr ''operation'') ''operation''"
    using ne by (simp add: fm_def finish_fields_def)
  have keys: "map fst fm = first_occurrences ?names @ [PStr ''operation'']"
    using keys_dict_set[OF fm0(2), of "''operation''" "''operation''"] notin
    by (simp add: fm_eq add_key_def fm0(4))
  have fm_app: "fm = fm0 @ [(PStr ''operation'', ''operation'')]"
    using notin unfolding fm_eq
    by (induction fm0) (auto simp: key_eq_def)
  have inj: "inj_on PStr (set (usable_names (attributes_of d)))" by (simp add: inj_on_def)
  have len: "length fm = card (set (usable_names (attributes_of d))) + 1"
    using arg_cong[OF keys, of length]
    by (simp add: first_occurrences_props(3) card_image[OF inj])
  have dist: "distinct (map fst fm)"
    using notin by (simp add: keys first_occurrences_props fm0(4))
  have filt: "filter (\<lambda>kv. snd kv = ''operation'') fm = [(PStr ''operation'', ''operation'')]"
    using fm0(3) by (simp add: fm_app real_types_def list_all_iff filter_empty_conv)
  have lst: "last fm = (PStr ''operation'', ''operation'')" by (simp add: fm_app)
  from extract_unfold[OF valid_doc_hashable[OF assms(1)] fm0(1)]
  show ?thesis using keys len dist filt lst unfolding fm_def by blast
qed



theorem field_map_shape_witness:
  "valid_doc (PDict [(PStr ''schemaKey'', PStr ''Cust''), (PStr ''attributes'',
      PList [PDict [(PStr ''name'', PStr ''b''), (PStr ''datatype'', PStr ''INT'')],
             PDict [(PStr ''name'', PStr ''a'')],
             PDict [(PStr ''name'', PStr '''')],
             PDict [(PStr ''name'', PStr ''b''), (PStr ''datatype'', PStr ''STRING'')]])]) \<and>
   (\<exists>t e fm. extract_schema_from_json (PDict [(PStr ''schemaKey'', PStr ''Cust''), (PStr ''attributes'',
      PList [PDict [(PStr ''name'', PStr ''b''), (PStr ''datatype'', PStr ''INT'')],
             PDict [(PStr ''name'', PStr ''a'')],
             PDict [(PStr ''name'', PStr '''')],
             PDict [(PStr ''name'', PStr ''b''), (PStr ''datatype'', PStr ''STRING'')]])]) =
        Inr (t, e, [(t, fm)]) \<and>
      map fst fm = [PStr ''b'', PStr ''a'', PStr ''operation''] \<and> length fm = 3)"
  using field_map_shape
    [of "[(PStr ''schemaKey'', PStr ''Cust''), (PStr ''attributes'',
      PList [PDict [(PStr ''name'', PStr ''b''), (PStr ''datatype'', PStr ''INT'')],
             PDict [(PStr ''name'', PStr ''a'')],
             PDict [(PStr ''name'', PStr '''')],
             PDict [(PStr ''name'', PStr ''b''), (PStr ''datatype'', PStr ''STRING'')]])]"]
  by (simp add: eval_simps)

theorem field_map_shape_counterexample:
  "valid_doc (PDict [(PStr ''attributes'',
      PList [PDict [(PStr ''name'', PStr ''operation'')], PDict [(PStr ''name'', PStr ''x'')]])]) \<and>
   extract_schema_from_json (PDict [(PStr ''attributes'',
      PList [PDict [(PStr ''name'', PStr ''operation'')], PDict [(PStr ''name'', PStr ''x'')]])]) =
     Inr (PStr ''unknown_table'', PStr ''default_entity'',
          [(PStr ''unknown_table'', [(PStr ''operation'', ''operation''), (PStr ''x'', ''string'')])]) \<and>
   card (set (usable_names [PDict [(PStr ''name'', PStr ''operation'')],
                            PDict [(PStr ''name'', PStr ''x'')]])) + 1 = 3 \<and>
   valid_doc (PDict [(PStr ''attributes'', PList [PDict [(PStr ''name'', PStr '''')]])]) \<and>
   extract_schema_from_json (PDict [(PStr ''attributes'', PList [PDict [(PStr ''name'', PStr '''')]])]) =
     Inr (PStr ''unknown_table'', PStr ''default_entity'',
          [(PStr ''unknown_table'', [(PStr ''key'', ''string''), (PStr ''operation'', ''operation'')])]) \<and>
   card (set (usable_names [PDict [(PStr ''name'', PStr '''')]])) + 1 = 1"
  by (simp add: eval_simps)

lemma valid_attr_ok: "valid_attr a \<Longrightarrow> attr_ok a"
  by (cases a) (auto simp: opt_str_def split: option.splits elim!: is_str.elims)

lemma valid_doc_extractable: "valid_doc d \<Longrightarrow> extractable d"
  using valid_doc_hashable
  by (cases d) (auto simp: list_all_iff valid_attr_ok)

lemma attr_datatype_fail:
  "\<not> (opt_str a ''datatype'' \<and> opt_str a ''logicalDatatype'') \<Longrightarrow>
   \<exists>e. attr_datatype (PDict a) = Inl e"
  unfolding attr_datatype_def opt_str_def
  by (auto split: option.splits sum.splits elim!: py_upper.elims)

lemma add_attributes_ok:
  "list_all attr_ok as \<Longrightarrow> \<exists>fm'. add_attributes as fm = Inr fm'"
proof (induction as arbitrary: fm)
  case Nil
  then show ?case by simp
next
  case (Cons attr as)
  from Cons.prems obtain a where a: "attr = PDict a" by (cases attr) auto
  from Cons.prems a have ok: "opt_str a ''datatype''" "opt_str a ''logicalDatatype''"
    and nm: "case dict_get a (PStr ''name'') of None \<Rightarrow> True | Some v \<Rightarrow> truthy v \<longrightarrow> hashable v"
    and rest: "list_all attr_ok as" by auto
  from attr_datatype_valid[OF ok] obtain t where t: "attr_datatype (PDict a) = Inr t" by blast
  from Cons.IH[OF rest] nm show ?case
    by (auto simp: a t split: option.splits)
qed

lemma add_attributes_fail:
  "\<not> list_all attr_ok as \<Longrightarrow> \<exists>e. add_attributes as fm = Inl e"
proof (induction as arbitrary: fm)
  case Nil
  then show ?case by simp
next
  case (Cons attr as)
  show ?case
  proof (cases "attr_ok attr")
    case True
    with Cons.prems have "\<not> list_all attr_ok as" by simp
    from Cons.IH[OF this] show ?thesis by (auto split: sum.splits)
  next
    case False
    show ?thesis
    proof (cases attr)
      case (PDict a)
      show ?thesis
      proof (cases "opt_str a ''datatype'' \<and> opt_str a ''logicalDatatype''")
        case True
        with False PDict show ?thesis
          by (auto split: option.splits sum.splits)
      next
        case nok: False
        from attr_datatype_fail[OF nok] show ?thesis by (auto simp: PDict)
      qed
    qed simp_all
  qed
qed

text \<open>
  Claim C8, as the code has it. Extraction returns a result exactly on the
  documents that are dictionaries with a hashable table name in which every
  entry of an attribute list is a dictionary whose \<^verbatim>\<open>datatype\<close> and
  \<^verbatim>\<open>logicalDatatype\<close> are strings where present and whose \<^verbatim>\<open>name\<close>, when
  truthy, is hashable. Absent fields degrade to defaults; fields of another
  type raise.
\<close>
theorem extraction_returns_iff:
  "(\<exists>r. extract_schema_from_json d = Inr r) \<longleftrightarrow> extractable d"
proof (cases d)
  case (PDict m)
  show ?thesis
  proof (cases "list_all attr_ok (attributes_of m)")
    case True
    from add_attributes_ok[OF True, of "[]"] show ?thesis
      by (auto simp: PDict True name_or_unknown_def Let_def split: option.splits)
  next
    case False
    from add_attributes_fail[OF False, of "[]"] show ?thesis
      by (auto simp: PDict False Let_def)
  qed
qed simp_all

theorem extraction_returns_iff_witness:
  "extractable (PDict [(PStr ''name'', PInt 7), (PStr ''entityKey'', PList []),
       (PStr ''attributes'', PList [PDict [(PStr ''name'', PNone)], PDict [(PStr ''datatype'', PStr ''int'')]])]) \<and>
   (\<exists>r. extract_schema_from_json (PDict [(PStr ''name'', PInt 7), (PStr ''entityKey'', PList []),
       (PStr ''attributes'', PList [PDict [(PStr ''name'', PNone)], PDict [(PStr ''datatype'', PStr ''int'')]])]) = Inr r) \<and>
   \<not> extractable (PDict [(PStr ''schemaKey'', PList [])]) \<and>
   \<not> (\<exists>r. extract_schema_from_json (PDict [(PStr ''schemaKey'', PList [])]) = Inr r)"
  using extraction_returns_iff
    [of "PDict [(PStr ''name'', PInt 7), (PStr ''entityKey'', PList []),
       (PStr ''attributes'', PList [PDict [(PStr ''name'', PNone)], PDict [(PStr ''datatype'', PStr ''int'')]])]"]
    extraction_returns_iff [of "PDict [(PStr ''schemaKey'', PList [])]"]
  by (simp add: eval_simps)

theorem extraction_never_fails_counterexample:
  "extract_schema_from_json
     (PDict [(PStr ''schemaKey'', PStr ''Cust''),
             (PStr ''attributes'',
              PList [PDict [(PStr ''name'', PStr ''id''), (PStr ''datatype'', PNone)]])]) =
   Inl AttributeError"
  by (simp add: eval_simps)

text \<open>
  Claim C5, as the code has it. On every document on which extraction
  returns, the table name is the value of \<^verbatim>\<open>schemaKey\<close> whenever that key is
  present (the empty string included), else the value of \<^verbatim>\<open>name\<close> when
  present, else \<^verbatim>\<open>unknown_table\<close>; the entity key is the value of
  \<^verbatim>\<open>entityKey\<close> when present, else \<^verbatim>\<open>default_entity\<close>. Unless \<^verbatim>\<open>schemaKey\<close>
  is the empty string, the table name is the one the specification describes.
\<close>
theorem table_name_and_entity_key:
  assumes "extractable (PDict d)"
  shows "\<exists>s. extract_schema_from_json (PDict d) =
           Inr (case dict_get d (PStr ''schemaKey'') of Some v \<Rightarrow> v | None \<Rightarrow> name_or_unknown d,
                spec_entity_key d, s) \<and>
         (dict_get d (PStr ''schemaKey'') \<noteq> Some (PStr []) \<longrightarrow>
          (case dict_get d (PStr ''schemaKey'') of Some v \<Rightarrow> v | None \<Rightarrow> name_or_unknown d) =
            spec_table_name d)"
proof -
  from assms have "list_all attr_ok (attributes_of d)" by simp
  from add_attributes_ok[OF this, of "[]"] obtain fm where
    "add_attributes (attributes_of d) [] = Inr fm" by blast
  from extract_unfold[OF _ this] assms show ?thesis
    by (auto simp: spec_table_name_def split: option.splits)
qed

theorem table_name_and_entity_key_witness:
  "extractable (PDict [(PStr ''name'', PStr ''Orders'')]) \<and>
   (\<exists>s. extract_schema_from_json (PDict [(PStr ''name'', PStr ''Orders'')]) =
      Inr (PStr ''Orders'', PStr ''default_entity'', s)) \<and>
   spec_table_name [(PStr ''name'', PStr ''Orders'')] = PStr ''Orders''"
  using table_name_and_entity_key [of "[(PStr ''name'', PStr ''Orders'')]"]
  by (simp add: eval_simps)

theorem table_name_counterexample:
  "extract_schema_from_json (PDict [(PStr ''schemaKey'', PStr ''''), (PStr ''name'', PStr ''Cust'')]) =
     Inr (PStr '''', PStr ''default_entity'',
          [(PStr '''', [(PStr ''key'', ''string''), (PStr ''operation'', ''operation'')])]) \<and>
   spec_table_name [(PStr ''schemaKey'', PStr ''''), (PStr ''name'', PStr ''Cust'')] = PStr ''Cust''"
  by (simp add: eval_simps)




section \<open>Properties of record synthesis and materialisation\<close>





lemma gen_value_str: "\<exists>v w'. gen_value (PStr n) t i w = (Inr v, w')"
  unfolding gen_value_def
  by (auto split: prod.splits)


lemma gen_record_str:
  "str_keys attrs \<Longrightarrow> \<exists>r w'. gen_record attrs i rec w = (Inr r, w')"
proof (induction attrs arbitrary: rec w)
  case Nil
  then show ?case by simp
next
  case (Cons kt attrs)
  obtain k t where kt: "kt = (k, t)" by (cases kt)
  from Cons.prems kt obtain n where n: "k = PStr n" by (cases k) (auto simp: str_keys_def)
  from Cons.prems have rest: "str_keys attrs" by (simp add: str_keys_def)
  obtain v w1 where g: "gen_value (PStr n) t i w = (Inr v, w1)" using gen_value_str by blast
  from Cons.IH[OF rest, of "dict_set rec k v" w1] show ?case by (simp add: kt n g)
qed

lemma key_eq_sym: "key_eq a b \<longleftrightarrow> key_eq b a"
  by (auto simp: key_eq_def)

lemma key_eq_trans: "key_eq a b \<Longrightarrow> key_eq b c \<Longrightarrow> key_eq a c"
  by (simp add: key_eq_def)































section \<open>Properties of the archive and of the request handler\<close>

lemma extends_refl [simp]: "extends w w"
  by (simp add: extends_def)



lemma extends_frame:
  "written w' = written w \<Longrightarrow> repr_of w' = repr_of w \<Longrightarrow> cwd w' = cwd w \<Longrightarrow>
   archives w' = archives w \<Longrightarrow> tmp_files w' = tmp_files w \<Longrightarrow> extends w w'"
  by (simp add: extends_def)

































lemma rmtree_temp_raises: "rmtree_temp w = (Inl (NameError ''shutil''), w)"
  by (simp add: rmtree_temp_def resolve_name_def module_names_def)

lemma try_body_after_archive:
  "process_upload up count w = (Inr (fs, zp), w1) \<Longrightarrow>
   try_body up count w = (Inl (NameError ''shutil''), w1)"
  by (simp add: try_body_def rmtree_temp_raises)

lemma try_body_never_returns: "try_body up count w \<noteq> (Inr resp, w')"
proof (cases "process_upload up count w")
  case (Pair r w1)
  then show ?thesis
    by (cases r) (auto simp: try_body_def rmtree_temp_raises)
qed

lemma generate_no_success: "generate req w \<noteq> (Inr (JsonSuccess n link), w')"
proof (cases "schema_file req")
  case None
  then show ?thesis by (simp add: generate_def)
next
  case (Some up)
  show ?thesis
  proof (cases "form_count req")
    case (Inl e)
    with Some show ?thesis by (simp add: generate_def)
  next
    case (Inr count)
    let ?w0 = "w\<lparr>made_dirs := made_dirs w @ [temp_dir, output_dir]\<rparr>"
    obtain r w1 where t: "try_body up count ?w0 = (r, w1)" by (cases "try_body up count ?w0")
    with try_body_never_returns[of up count ?w0] obtain e where r: "r = Inl e" by (cases r) auto
    show ?thesis using Some Inr t r
      by (cases e) (simp_all add: generate_def)
  qed
qed

text \<open>
  Claim C10. Whenever a request gets through the archive creation of line
  209, the clean-up of line 211 looks up the name \<^verbatim>\<open>shutil\<close>, which the module
  never binds, and raises \<^verbatim>\<open>NameError\<close>; the handler of line 221 catches it, so
  the caller gets the error response with the text of this exception, in the
  state the archive creation left. No request at all gets the success
  response.
\<close>
theorem cleanup_raises_name_error:
  assumes "schema_file req = Some up" and "filename up \<noteq> []" and "form_count req = Inr count"
    and "process_upload up count (w\<lparr>made_dirs := made_dirs w @ [temp_dir, output_dir]\<rparr>) =
           (Inr (files, zip_path), w1)"
  shows "rmtree_temp w1 = (Inl (NameError ''shutil''), w1) \<and>
         generate req w = (Inr (JsonException (NameError ''shutil'')), w1) \<and>
         (\<forall>n link w'. generate req w \<noteq> (Inr (JsonSuccess n link), w'))"
proof -
  from try_body_after_archive[OF assms(4)] assms(1,2,3)
  have "generate req w = (Inr (JsonException (NameError ''shutil'')), w1)"
    by (simp add: generate_def)
  with rmtree_temp_raises generate_no_success show ?thesis by blast
qed









lemma example_request_hyps:
  "schema_file example_request = Some example_upload"
  "filename example_upload \<noteq> []"
  "form_count example_request = Inr 1"
  by (simp_all add: example_request_def example_upload_def)

lemma example_upload_result:
  "fst (process_upload example_upload 1
          (example_world\<lparr>made_dirs := made_dirs example_world @ [temp_dir, output_dir]\<rparr>)) =
   Inr ([''/tmp/data/Cust/Cust_E1_file1.json''], ''downloads/generated_data.zip'')"
  by code_simp

theorem cleanup_raises_name_error_witness:
  "schema_file example_request = Some example_upload \<and>
   filename example_upload \<noteq> [] \<and>
   form_count example_request = Inr 1 \<and>
   fst (process_upload example_upload 1
          (example_world\<lparr>made_dirs := made_dirs example_world @ [temp_dir, output_dir]\<rparr>)) =
     Inr ([''/tmp/data/Cust/Cust_E1_file1.json''], ''downloads/generated_data.zip'') \<and>
   fst (generate example_request example_world) = Inr (JsonException (NameError ''shutil''))"
proof -
  let ?w0 = "example_world\<lparr>made_dirs := made_dirs example_world @ [temp_dir, output_dir]\<rparr>"
  have p: "process_upload example_upload 1 ?w0 =
             (Inr ([''/tmp/data/Cust/Cust_E1_file1.json''], ''downloads/generated_data.zip''),
              snd (process_upload example_upload 1 ?w0))"
    using example_upload_result by (metis prod.collapse)
  from cleanup_raises_name_error[OF example_request_hyps p]
  have "fst (generate example_request example_world) = Inr (JsonException (NameError ''shutil''))"
    by simp
  with example_request_hyps example_upload_result show ?thesis by blast
qed

text \<open>
  Claim C4, at a failing input. The handler materialises under the output root
  \<^verbatim>\<open>/tmp/data\<close>, but line 136 takes the member names relative to \<^verbatim>\<open>data\<close> in
  the working directory. With the working directory \<^verbatim>\<open>/var/task\<close> the file
  \<^verbatim>\<open>/tmp/data/Cust/Cust_E1_file1.json\<close> is stored as
  \<^verbatim>\<open>../../../tmp/data/Cust/Cust_E1_file1.json\<close>, whereas its path relative to the
  output root is \<^verbatim>\<open>Cust/Cust_E1_file1.json\<close>.
\<close>
theorem archive_names_relative_to_working_directory:
  "map fst (snd (last (archives (snd (generate example_request example_world))))) =
     [''../../../tmp/data/Cust/Cust_E1_file1.json''] \<and>
   relpath example_world ''/tmp/data/Cust/Cust_E1_file1.json'' output_dir =
     Inr ''Cust/Cust_E1_file1.json''"
  by code_simp

end
